theory Spec2Isabelle
  imports Main "HOL-Library.Multiset"
begin

section \<open>Data model\<close>

text \<open>
  The relational store of \<^verbatim>\<open>app/database.py\<close>: four tables, each a list of rows in
  insertion (rowid) order. \<^verbatim>\<open>CURRENT_TIMESTAMP\<close> has a resolution of one second; a
  timestamp is the number of seconds on the server clock, so two rows written within the
  same second carry equal timestamps. Nullable columns are options.
\<close>

type_synonym timestamp = nat

record user =
  user_id :: int
  username :: string
  first_name :: string
  last_name :: string
  password :: string
  education :: "string option"
  employment :: "string option"
  music :: "string option"
  movie :: "string option"
  nationality :: "string option"
  birthday :: "string option"

record post =
  post_id :: int
  post_u_id :: int
  content :: string
  image_ref :: string
  post_creation_time :: timestamp

record comment_row =
  comment_id :: int
  p_id :: int
  comment_u_id :: int
  comment_text :: string
  comment_creation_time :: timestamp

record friend_row =
  u_id :: int
  f_id :: int

text \<open>
  The state the handlers act on: the four tables and the files under the instance folder
  (path and contents), which \<^verbatim>\<open>stream\<close> writes an uploaded image to.
\<close>

record state =
  Users :: "user list"
  Posts :: "post list"
  Comments :: "comment_row list"
  Friends :: "friend_row list"
  files :: "(string \<times> string) list"

datatype error =
  IntegrityError | TypeError | AttributeError | OverflowError | FileNotFoundError
  | IsADirectoryError | PermissionError

text \<open>
  What the source takes from outside \<^verbatim>\<open>src/\<close>: the two bcrypt operations, the
  instance folder, and two facts of the schema file, which is not among the sources
  (whether \<^verbatim>\<open>Users.username\<close> carries a uniqueness constraint, and the default of the
  profile columns of a new row). \<^verbatim>\<open>check_password_hash\<close> answers yes or no, as it does
  on every hash that \<^verbatim>\<open>generate_password_hash\<close> has produced.

  Two more come from the Python runtime and the operating system. \<^verbatim>\<open>str_isalnum\<close> is
  \<^verbatim>\<open>str.isalnum\<close>. \<^verbatim>\<open>save_file\<close> is \<^verbatim>\<open>FileStorage.save\<close> at the path that
  \<^verbatim>\<open>pathlib\<close> joins from the given components: from the files present, the components
  and the contents it gives the files after the write, or the error it raises (a
  FileNotFoundError for a name that leads into a directory that does not exist, say), in
  which case nothing is written.
\<close>

record env =
  check_password_hash :: "string \<Rightarrow> string \<Rightarrow> bool"
  generate_password_hash :: "string \<Rightarrow> string"
  instance_path :: string
  username_unique :: bool
  profile_default :: "string option"
  str_isalnum :: "string \<Rightarrow> bool"
  save_file :: "(string \<times> string) list \<Rightarrow> string list \<Rightarrow> string \<Rightarrow> error + (string \<times> string) list"

section \<open>html.escape\<close>

text \<open>
  \<^verbatim>\<open>str.replace(old, new)\<close> for a one-character \<^verbatim>\<open>old\<close>, and \<^verbatim>\<open>html.escape(s, quote=True)\<close>
  of the Python standard library, which is five such replacements, the ampersand first.
\<close>

definition replace :: "char \<Rightarrow> string \<Rightarrow> string \<Rightarrow> string" where
  "replace old new s = concat (map (\<lambda>c. if c = old then new else [c]) s)"

definition html_escape :: "string \<Rightarrow> string" where
  "html_escape s =
     replace (CHR 0x27) ''&#x27;''
       (replace (CHR 0x22) ''&quot;''
         (replace CHR ''>'' ''&gt;''
           (replace CHR ''<'' ''&lt;''
             (replace CHR ''&'' ''&amp;'' s))))"

text \<open>The same function read character by character.\<close>

definition escape_char :: "char \<Rightarrow> string" where
  "escape_char c =
     (if c = CHR ''&'' then ''&amp;''
      else if c = CHR ''<'' then ''&lt;''
      else if c = CHR ''>'' then ''&gt;''
      else if c = CHR 0x22 then ''&quot;''
      else if c = CHR 0x27 then ''&#x27;''
      else [c])"

section \<open>Persistence layer\<close>

text \<open>
  Modelled from the spec: the schema file is not among the sources, and the spec gives each
  row an id that is ``unique, generated''. As SQLite does for an integer primary key that
  an insert leaves out, the id is one more than the largest id of the table, and 1 in an
  empty table.
\<close>

definition next_id :: "int list \<Rightarrow> int" where
  "next_id ids = fold max ids 0 + 1"

definition get_user :: "state \<Rightarrow> string \<Rightarrow> user option" where
  "get_user st name = find (\<lambda>u. username u = html_escape name) (Users st)"

text \<open>
  \<^verbatim>\<open>create_user\<close>: the insert raises \<^verbatim>\<open>sqlite3.IntegrityError\<close> when the schema declares
  the username unique and a row has it already; nothing in \<^verbatim>\<open>create_user\<close> catches it.
\<close>

definition create_user ::
  "env \<Rightarrow> state \<Rightarrow> string \<Rightarrow> string \<Rightarrow> string \<Rightarrow> string \<Rightarrow> error + (nat \<times> state)" where
  "create_user e st name fname lname pw =
     (if username_unique e \<and> html_escape name \<in> set (map username (Users st))
      then Inl IntegrityError
      else Inr (1, st\<lparr>Users := Users st @
        [\<lparr>user_id = next_id (map user_id (Users st)),
          username = html_escape name,
          first_name = html_escape fname,
          last_name = html_escape lname,
          password = html_escape pw,
          education = profile_default e,
          employment = profile_default e,
          music = profile_default e,
          movie = profile_default e,
          nationality = profile_default e,
          birthday = profile_default e\<rparr>]\<rparr>))"

text \<open>
  The connection of \<^verbatim>\<open>SQLite3.connection\<close> never switches foreign keys on, so the
  inserts into Posts, Comments and Friends go through for any ids.
\<close>

definition create_post :: "state \<Rightarrow> timestamp \<Rightarrow> int \<Rightarrow> string \<Rightarrow> string \<Rightarrow> nat \<times> state" where
  "create_post st now uid raw img =
     (let sanitized_content = html_escape raw
      in (1, st\<lparr>Posts := Posts st @
            [\<lparr>post_id = next_id (map post_id (Posts st)),
              post_u_id = uid,
              content = sanitized_content,
              image_ref = img,
              post_creation_time = now\<rparr>]\<rparr>))"

text \<open>
  An integer that \<^verbatim>\<open>sqlite3\<close> binds to a statement must fit 64 bits; for any other the
  \<^verbatim>\<open>execute\<close> call raises OverflowError. The ids read from rows fit. The one integer
  that reaches the persistence layer from a request is the post id of the comments URL,
  which Flask's \<^verbatim>\<open>int\<close> converter lets be any natural number: \<^verbatim>\<open>get_post\<close> and
  \<^verbatim>\<open>get_comments\<close> raise on one that does not fit, and \<^verbatim>\<open>comments\<close> hands
  \<^verbatim>\<open>create_comment\<close> only one that does.
\<close>

definition sqlite_int :: "int \<Rightarrow> bool" where
  "sqlite_int i = (- (2 ^ 63) \<le> i \<and> i < 2 ^ 63)"

definition get_post :: "state \<Rightarrow> int \<Rightarrow> error + (post \<times> user) option" where
  "get_post st pid =
     (if \<not> sqlite_int pid then Inl OverflowError
      else Inr (case concat (map (\<lambda>p. map (\<lambda>u. (p, u))
                                        (filter (\<lambda>u. post_u_id p = user_id u) (Users st)))
                                (filter (\<lambda>p. post_id p = pid) (Posts st))) of
                  [] \<Rightarrow> None
                | r # _ \<Rightarrow> Some r))"

text \<open>
  \<^verbatim>\<open>ORDER BY key DESC\<close>: an insertion sort into non-increasing order that keeps rows
  of equal key in the order of the scan.
\<close>

fun insert_desc :: "('a \<Rightarrow> timestamp) \<Rightarrow> 'a \<Rightarrow> 'a list \<Rightarrow> 'a list" where
  "insert_desc key x [] = [x]"
| "insert_desc key x (y # ys) =
     (if key y \<le> key x then x # y # ys else y # insert_desc key x ys)"

fun order_by_desc :: "('a \<Rightarrow> timestamp) \<Rightarrow> 'a list \<Rightarrow> 'a list" where
  "order_by_desc key [] = []"
| "order_by_desc key (x # xs) = insert_desc key x (order_by_desc key xs)"

record stream_row =
  row_post :: post
  row_user :: user
  cc :: nat

text \<open>The \<^verbatim>\<open>WHERE\<close> clause of \<^verbatim>\<open>get_posts\<close>, its three disjuncts in the source's order.\<close>

definition get_posts_where :: "state \<Rightarrow> int \<Rightarrow> post \<Rightarrow> bool" where
  "get_posts_where st uid p =
     (post_u_id p \<in> set (map u_id (filter (\<lambda>f. f_id f = uid) (Friends st)))
      \<or> post_u_id p \<in> set (map f_id (filter (\<lambda>f. u_id f = uid) (Friends st)))
      \<or> post_u_id p = uid)"

definition comment_count :: "state \<Rightarrow> post \<Rightarrow> nat" where
  "comment_count st p = length (filter (\<lambda>c. p_id c = post_id p) (Comments st))"

definition get_posts :: "state \<Rightarrow> int \<Rightarrow> stream_row list" where
  "get_posts st uid =
     order_by_desc (\<lambda>r. post_creation_time (row_post r))
       (concat (map (\<lambda>p. map (\<lambda>u. \<lparr>row_post = p, row_user = u, cc = comment_count st p\<rparr>)
                              (filter (\<lambda>u. user_id u = post_u_id p) (Users st)))
                    (filter (get_posts_where st uid) (Posts st))))"

definition create_comment :: "state \<Rightarrow> timestamp \<Rightarrow> int \<Rightarrow> int \<Rightarrow> string \<Rightarrow> nat \<times> state" where
  "create_comment st now pid uid raw =
     (1, st\<lparr>Comments := Comments st @
        [\<lparr>comment_id = next_id (map comment_id (Comments st)),
          p_id = pid,
          comment_u_id = uid,
          comment_text = html_escape raw,
          comment_creation_time = now\<rparr>]\<rparr>)"

definition get_comments :: "state \<Rightarrow> int \<Rightarrow> error + (comment_row \<times> user) list" where
  "get_comments st pid =
     (if \<not> sqlite_int pid then Inl OverflowError
      else Inr (order_by_desc (\<lambda>r. comment_creation_time (fst r))
             (remdups (concat (map (\<lambda>c. map (\<lambda>u. (c, u))
                                         (filter (\<lambda>u. comment_u_id c = user_id u) (Users st)))
                                   (filter (\<lambda>c. p_id c = pid) (Comments st)))))))"

definition get_friend :: "state \<Rightarrow> int \<Rightarrow> int list" where
  "get_friend st uid = map f_id (filter (\<lambda>f. u_id f = uid) (Friends st))"

definition get_friends :: "state \<Rightarrow> int \<Rightarrow> user list" where
  "get_friends st uid =
     concat (map (\<lambda>f. filter (\<lambda>u. f_id f = user_id u) (Users st))
                 (filter (\<lambda>f. u_id f = uid \<and> f_id f \<noteq> uid) (Friends st)))"

definition create_friend :: "state \<Rightarrow> int \<Rightarrow> int \<Rightarrow> nat \<times> state" where
  "create_friend st uid fid = (1, st\<lparr>Friends := Friends st @ [\<lparr>u_id = uid, f_id = fid\<rparr>]\<rparr>)"

text \<open>
  \<^verbatim>\<open>update_profile\<close>: one \<^verbatim>\<open>UPDATE\<close> of every row whose username is the escaped
  argument. Five values are bound escaped, the birthday as it is passed. The result is the
  number of rows matched.
\<close>

definition update_profile ::
  "state \<Rightarrow> string \<Rightarrow> string \<Rightarrow> string \<Rightarrow> string \<Rightarrow> string \<Rightarrow> string \<Rightarrow> string \<Rightarrow> nat \<times> state" where
  "update_profile st name edu emp mus mov natl bday =
     (length (filter (\<lambda>u. username u = html_escape name) (Users st)),
      st\<lparr>Users := map (\<lambda>u. if username u = html_escape name
                             then u\<lparr>education := Some (html_escape edu),
                                    employment := Some (html_escape emp),
                                    music := Some (html_escape mus),
                                    movie := Some (html_escape mov),
                                    nationality := Some (html_escape natl),
                                    birthday := Some bday\<rparr>
                             else u) (Users st)\<rparr>)"

section \<open>Request handlers\<close>

text \<open>
  A handler of \<^verbatim>\<open>app/routes.py\<close> returns a rendered view or a redirect, or raises; it
  leaves flashed messages (category and text) and a state behind. The state is returned in
  every case, since a write made before a raise stays.
\<close>

datatype endpoint = index_url | stream_url string | profile_url string

datatype view =
    index_view
  | stream_view string "stream_row list"
  | comments_view string "(post \<times> user) option" "(comment_row \<times> user) list"
  | friends_view string "user list"
  | profile_view string "user option"

datatype response = render_template view | redirect endpoint

datatype outcome = Responded response | Raised error

type_synonym flash = "string \<times> string"

type_synonym result = "outcome \<times> flash list \<times> state"

datatype http_method = GET | POST

text \<open>
  The forms of \<^verbatim>\<open>app.forms\<close> (not among the sources) as the handlers read them: the
  submitted data of each field, which submit button fired, and what validation found. A
  form validates when it has no field errors. A text field holds a string; the image field
  of the post form holds an uploaded file or nothing.
\<close>

record login_form =
  login_username :: string
  login_password :: string
  login_submit :: bool
  login_valid :: bool

record register_form =
  reg_username :: string
  reg_first_name :: string
  reg_last_name :: string
  reg_password :: string
  reg_submit :: bool
  reg_errors :: "string list"

record file_storage =
  filename :: string
  file_data :: string

record post_form =
  content_data :: string
  image_data :: "file_storage option"

record profile_form =
  education_data :: string
  employment_data :: string
  music_data :: string
  movie_data :: string
  nationality_data :: string
  birthday_data :: string

fun join :: "string \<Rightarrow> string list \<Rightarrow> string" where
  "join sep [] = []"
| "join sep [x] = x"
| "join sep (x # y # ys) = x @ sep @ join sep (y # ys)"

definition register_error_messages :: "env \<Rightarrow> register_form \<Rightarrow> string list" where
  "register_error_messages e rf =
     (if ''first_name'' \<in> set (reg_errors rf) then [''First Name field is required.''] else [])
     @ (if ''last_name'' \<in> set (reg_errors rf) then [''Last Name field is required.''] else [])
     @ (if ''password'' \<in> set (reg_errors rf) then [''Password field is required.''] else [])
     @ (if ''username'' \<in> set (reg_errors rf)
        then [if length (reg_username rf) < 4 then ''Username must be at least 4 characters long.''
              else if \<not> str_isalnum e (reg_username rf)
                   then ''Username must contain only letters and numbers.''
                   else ''Username field is required.'']
        else [])
     @ (if ''confirm_password'' \<in> set (reg_errors rf) then [''Passwords must match''] else [])"

definition invalid_login :: flash where
  "invalid_login = (''warning'', ''Sorry, username or password is not valid!'')"

definition index :: "env \<Rightarrow> state \<Rightarrow> http_method \<Rightarrow> login_form \<Rightarrow> register_form \<Rightarrow> result" where
  "index e st m lf rf =
     (if m = POST then
        if login_submit lf then
          if login_valid lf then
            (case get_user st (login_username lf) of
               None \<Rightarrow> (Responded (render_template index_view), [invalid_login], st)
             | Some user \<Rightarrow>
                 if \<not> check_password_hash e (password user) (html_escape (login_password lf))
                 then (Responded (render_template index_view), [invalid_login], st)
                 else if check_password_hash e (password user) (html_escape (login_password lf))
                 then (Responded (redirect (stream_url (login_username lf))), [], st)
                 else (Responded (render_template index_view), [], st))
          else (Responded (render_template index_view),
                [(''warning'', ''Login form data is not valid or Empty, The fields in question is:'')],
                st)
        else if reg_submit rf then
          if reg_errors rf = [] then
            (let hashed_password = generate_password_hash e (reg_password rf)
             in case create_user e st (reg_username rf) (reg_first_name rf) (reg_last_name rf)
                       hashed_password of
                  Inl err \<Rightarrow> (Raised err, [], st)
                | Inr (response, st') \<Rightarrow>
                    if response = 1
                    then (Responded (redirect index_url),
                          [(''success'', ''User successfully created!'')], st')
                    else (Responded (render_template index_view),
                          [(''warning'', ''Somthing went wrong, user was not created!'')], st'))
          else (Responded (render_template index_view),
                [(''warning'', join [CHR 0x0A] (register_error_messages e rf))], st)
        else (Responded (render_template index_view), [], st)
      else (Responded (render_template index_view), [], st))"

text \<open>
  \<^verbatim>\<open>post_form.image.data.save(path)\<close> with \<^verbatim>\<open>path\<close> the join of the instance
  folder, \<^verbatim>\<open>app.config["UPLOADS_FOLDER_PATH"]\<close> and the client's filename. It writes the
  file or raises.
\<close>

definition UPLOADS_FOLDER_PATH :: string where
  "UPLOADS_FOLDER_PATH = ''uploads''"

definition save :: "env \<Rightarrow> state \<Rightarrow> file_storage \<Rightarrow> error + state" where
  "save e st fs =
     (case save_file e (files st) [instance_path e, UPLOADS_FOLDER_PATH, filename fs] (file_data fs) of
        Inl err \<Rightarrow> Inl err
      | Inr written \<Rightarrow> Inr (st\<lparr>files := written\<rparr>))"

text \<open>
  \<^verbatim>\<open>stream\<close>. The argument is the post form when \<^verbatim>\<open>validate_on_submit()\<close> holds and
  nothing otherwise. A \<^verbatim>\<open>FileStorage\<close> is true when its filename is not empty; then the
  file is saved first, and an error of the save ends the request before the user is
  looked at. The arguments of \<^verbatim>\<open>create_post\<close> are evaluated from the left:
  \<^verbatim>\<open>user["id"]\<close> raises TypeError on an absent user, then
  \<^verbatim>\<open>post_form.image.data.filename\<close> raises AttributeError on absent image data.
\<close>

definition stream :: "env \<Rightarrow> state \<Rightarrow> timestamp \<Rightarrow> string \<Rightarrow> post_form option \<Rightarrow> result" where
  "stream e st now uname form =
     (let user = get_user st uname
      in case form of
           Some pf \<Rightarrow>
             (case (case image_data pf of
                      None \<Rightarrow> Inr st
                    | Some fs \<Rightarrow> if filename fs \<noteq> [] then save e st fs else Inr st) of
                Inl err \<Rightarrow> (Raised err, [], st)
              | Inr st1 \<Rightarrow>
                  (case user of
                     None \<Rightarrow> (Raised TypeError, [], st1)
                   | Some u \<Rightarrow>
                       (case image_data pf of
                          None \<Rightarrow> (Raised AttributeError, [], st1)
                        | Some fs \<Rightarrow>
                            (Responded (redirect (stream_url uname)), [],
                             snd (create_post st1 now (user_id u) (content_data pf) (filename fs))))))
         | None \<Rightarrow>
             (case user of
                None \<Rightarrow> (Raised TypeError, [], st)
              | Some u \<Rightarrow>
                  (Responded (render_template (stream_view uname (get_posts st (user_id u)))), [], st)))"

text \<open>
  \<^verbatim>\<open>comments\<close>. The user is subscripted only inside the branch of a valid submission,
  as an argument of \<^verbatim>\<open>create_comment\<close>, so before that call binds the post id. After
  the branch the post and its comments are fetched, whatever the request.
\<close>

definition comments :: "state \<Rightarrow> timestamp \<Rightarrow> string \<Rightarrow> int \<Rightarrow> string option \<Rightarrow> result" where
  "comments st now uname pid form =
     (let user = get_user st uname
      in case (case form of
                 Some comment_data \<Rightarrow>
                   (case user of
                      None \<Rightarrow> Inl TypeError
                    | Some u \<Rightarrow>
                        if sqlite_int pid
                        then Inr (snd (create_comment st now pid (user_id u) comment_data))
                        else Inl OverflowError)
               | None \<Rightarrow> Inr st) of
           Inl err \<Rightarrow> (Raised err, [], st)
         | Inr st1 \<Rightarrow>
             (case get_post st1 pid of
                Inl err \<Rightarrow> (Raised err, [], st1)
              | Inr post_row \<Rightarrow>
                  (case get_comments st1 pid of
                     Inl err \<Rightarrow> (Raised err, [], st1)
                   | Inr comment_rows \<Rightarrow>
                       (Responded (render_template (comments_view uname post_row comment_rows)),
                        [], st1))))"

text \<open>
  \<^verbatim>\<open>friends\<close>. The argument is the submitted username of a valid friends form. Both
  paths subscript the user: \<^verbatim>\<open>get_friend(user["id"])\<close> before the checks and
  \<^verbatim>\<open>get_friends(user["id"])\<close> before rendering.
\<close>

definition friends :: "state \<Rightarrow> string \<Rightarrow> string option \<Rightarrow> result" where
  "friends st uname form =
     (case get_user st uname of
        None \<Rightarrow> (Raised TypeError, [], st)
      | Some user \<Rightarrow>
          (case form of
             None \<Rightarrow> (Responded (render_template (friends_view uname (get_friends st (user_id user)))),
                       [], st)
           | Some target \<Rightarrow>
               (let friend = get_user st target;
                    friends = get_friend st (user_id user)
                in case friend of
                     None \<Rightarrow>
                       (Responded (render_template (friends_view uname (get_friends st (user_id user)))),
                        [(''warning'', ''User does not exist!'')], st)
                   | Some fr \<Rightarrow>
                       if user_id fr = user_id user
                       then (Responded (render_template
                               (friends_view uname (get_friends st (user_id user)))),
                             [(''warning'', ''You cannot be friends with yourself!'')], st)
                       else if user_id fr \<in> set friends
                       then (Responded (render_template
                               (friends_view uname (get_friends st (user_id user)))),
                             [(''warning'', ''You are already friends with this user!'')], st)
                       else (let st1 = snd (create_friend st (user_id user) (user_id fr))
                             in (Responded (render_template
                                   (friends_view uname (get_friends st1 (user_id user)))),
                                 [(''success'', ''Friend successfully added!'')], st1)))))"

text \<open>
  \<^verbatim>\<open>profile\<close>. The looked-up user is only handed to the template.
\<close>

definition profile :: "state \<Rightarrow> string \<Rightarrow> profile_form option \<Rightarrow> result" where
  "profile st uname form =
     (let user = get_user st uname
      in case form of
           Some pf \<Rightarrow>
             (Responded (redirect (profile_url uname)), [],
              snd (update_profile st uname (education_data pf) (employment_data pf) (music_data pf)
                     (movie_data pf) (nationality_data pf) (birthday_data pf)))
         | None \<Rightarrow> (Responded (render_template (profile_view uname user)), [], st))"

section \<open>Notions of the specification\<close>

text \<open>
  Two users are connected when a friendship edge joins them in either direction; the feed
  of a user is the posts written by the user or by a connected user, in table order. A
  user has an outbound edge to another when a Friends row leads from the one to the other.
\<close>

definition connected :: "state \<Rightarrow> int \<Rightarrow> int \<Rightarrow> bool" where
  "connected st a b =
     list_ex (\<lambda>f. (u_id f = a \<and> f_id f = b) \<or> (u_id f = b \<and> f_id f = a)) (Friends st)"

definition feed_posts :: "state \<Rightarrow> int \<Rightarrow> post list" where
  "feed_posts st uid = filter (\<lambda>p. post_u_id p = uid \<or> connected st uid (post_u_id p)) (Posts st)"

definition has_edge :: "state \<Rightarrow> int \<Rightarrow> int \<Rightarrow> bool" where
  "has_edge st a b = list_ex (\<lambda>f. u_id f = a \<and> f_id f = b) (Friends st)"

text \<open>
  A store is in order when no two users share an id and every post was written by a
  stored user.
\<close>

definition store_ok :: "state \<Rightarrow> bool" where
  "store_ok st =
     (distinct (map user_id (Users st))
      \<and> list_all (\<lambda>p. post_u_id p \<in> set (map user_id (Users st))) (Posts st))"

section \<open>A small store\<close>

text \<open>
  Three users, of whom bob has befriended alice; one post each, bob's with one comment.
\<close>

definition new_user :: "int \<Rightarrow> string \<Rightarrow> string \<Rightarrow> user" where
  "new_user i name pw =
     \<lparr>user_id = i, username = name, first_name = name, last_name = ''Doe'', password = pw,
      education = None, employment = None, music = None, movie = None, nationality = None,
      birthday = None\<rparr>"

definition alice :: user where
  "alice = new_user 1 ''alice'' ''hash:secret''"

definition bob :: user where
  "bob = new_user 2 ''bob'' ''hash:hunter2''"

definition carol :: user where
  "carol = new_user 3 ''carol'' ''hash:swordfish''"

definition post1 :: post where
  "post1 = \<lparr>post_id = 1, post_u_id = 1, content = ''hello'', image_ref = [],
            post_creation_time = 10\<rparr>"

definition post2 :: post where
  "post2 = \<lparr>post_id = 2, post_u_id = 2, content = ''hi there'', image_ref = ''cat.png'',
            post_creation_time = 20\<rparr>"

definition post3 :: post where
  "post3 = \<lparr>post_id = 3, post_u_id = 3, content = ''unseen'', image_ref = [],
            post_creation_time = 30\<rparr>"

definition comment1 :: comment_row where
  "comment1 = \<lparr>comment_id = 1, p_id = 2, comment_u_id = 1, comment_text = ''nice'',
               comment_creation_time = 25\<rparr>"

definition example_state :: state where
  "example_state =
     \<lparr>Users = [alice, bob, carol],
      Posts = [post1, post2, post3],
      Comments = [comment1],
      Friends = [\<lparr>u_id = 2, f_id = 1\<rparr>],
      files = []\<rparr>"

definition example_env :: env where
  "example_env =
     \<lparr>check_password_hash = (\<lambda>h p. h = ''hash:'' @ p),
      generate_password_hash = (\<lambda>p. ''hash:'' @ p),
      instance_path = ''/srv/instance'',
      username_unique = True,
      profile_default = None,
      str_isalnum = (\<lambda>s. s \<noteq> [] \<and> list_all (\<lambda>c. c \<notin> set ''<>&/ '') s),
      save_file = (\<lambda>present parts contents.
                     if CHR ''/'' \<in> set (last parts) then Inl FileNotFoundError
                     else Inr ((last parts, contents) # present))\<rparr>"

text \<open>
  The store after alice has posted twice within one second of the clock, each time a valid
  form with an empty file field.
\<close>

definition quick_post :: post_form where
  "quick_post = \<lparr>content_data = ''again'', image_data = Some \<lparr>filename = [], file_data = []\<rparr>\<rparr>"

definition tied_state :: state where
  "tied_state =
     snd (snd (stream example_env
       (snd (snd (stream example_env example_state 40 ''alice'' (Some quick_post))))
       40 ''alice'' (Some quick_post)))"

section \<open>Escaping\<close>

lemma replace_Nil: "replace old new [] = []"
  by (simp add: replace_def)

lemma replace_Cons: "replace old new (c # s) = (if c = old then new else [c]) @ replace old new s"
  by (simp add: replace_def)

lemma replace_append: "replace old new (s @ t) = replace old new s @ replace old new t"
  by (simp add: replace_def)

lemma html_escape_Nil: "html_escape [] = []"
  by (simp add: html_escape_def replace_Nil)

lemma html_escape_Cons: "html_escape (c # s) = escape_char c @ html_escape s"
  by (simp add: html_escape_def escape_char_def replace_Cons replace_append replace_Nil)

lemma html_escape_conv: "html_escape s = concat (map escape_char s)"
  by (induction s) (simp_all add: html_escape_Nil html_escape_Cons)

lemma escape_char_safe:
  "set (escape_char c) \<inter> {CHR ''<'', CHR ''>'', CHR 0x22, CHR 0x27} = {}"
  by (simp add: escape_char_def)

lemma html_escape_safe:
  "set (html_escape s) \<inter> {CHR ''<'', CHR ''>'', CHR 0x22, CHR 0x27} = {}"
  using escape_char_safe by (fastforce simp: html_escape_conv)

text \<open>
  Claim C7. \<^verbatim>\<open>create_post\<close> and \<^verbatim>\<open>create_comment\<close> append one row whose text is the
  HTML-escaped form of the text they are given, for every text; the escaping is applied
  once, character by character, and its result holds no angle bracket and no quote, so
  \<^verbatim>\<open><b>hi</b>\<close> is stored as the literal text \<^verbatim>\<open>&lt;b&gt;hi&lt;/b&gt;\<close>.
\<close>

theorem content_sanitized_at_write:
  "Posts (snd (create_post st now uid raw img)) =
     Posts st @ [\<lparr>post_id = next_id (map post_id (Posts st)), post_u_id = uid,
                  content = html_escape raw, image_ref = img, post_creation_time = now\<rparr>]
   \<and> Comments (snd (create_comment st now pid uid raw)) =
     Comments st @ [\<lparr>comment_id = next_id (map comment_id (Comments st)), p_id = pid,
                     comment_u_id = uid, comment_text = html_escape raw,
                     comment_creation_time = now\<rparr>]
   \<and> html_escape raw = concat (map escape_char raw)
   \<and> set (html_escape raw) \<inter> {CHR ''<'', CHR ''>'', CHR 0x22, CHR 0x27} = {}
   \<and> html_escape ''<b>hi</b>'' = ''&lt;b&gt;hi&lt;/b&gt;''"
proof -
  have "html_escape ''<b>hi</b>'' = ''&lt;b&gt;hi&lt;/b&gt;''"
    by (simp add: html_escape_Cons html_escape_Nil escape_char_def)
  moreover have "html_escape raw = concat (map escape_char raw)"
    by (rule html_escape_conv)
  moreover note html_escape_safe [of raw]
  ultimately show ?thesis
    by (simp add: create_post_def create_comment_def)
qed

section \<open>The feed\<close>

lemma mset_insert_desc: "mset (insert_desc key x xs) = add_mset x (mset xs)"
  by (induction xs) simp_all

lemma mset_order_by_desc: "mset (order_by_desc key xs) = mset xs"
  by (induction xs) (simp_all add: mset_insert_desc)

lemma set_insert_desc: "set (insert_desc key x xs) = insert x (set xs)"
  by (induction xs) auto

lemma set_order_by_desc: "set (order_by_desc key xs) = set xs"
  by (induction xs) (simp_all add: set_insert_desc)

lemma sorted_insert_desc:
  "sorted_wrt (\<lambda>a b. key b \<le> key a) xs \<Longrightarrow> sorted_wrt (\<lambda>a b. key b \<le> key a) (insert_desc key x xs)"
  by (induction xs) (auto simp: set_insert_desc)

lemma sorted_order_by_desc: "sorted_wrt (\<lambda>a b. key b \<le> key a) (order_by_desc key xs)"
  by (induction xs) (simp_all add: sorted_insert_desc)

lemma filter_unique_key:
  "distinct (map f xs) \<Longrightarrow> k \<in> set (map f xs) \<Longrightarrow> \<exists>x. filter (\<lambda>y. f y = k) xs = [x]"
proof (induction xs)
  case Nil
  then show ?case by simp
next
  case (Cons a xs)
  show ?case
  proof (cases "f a = k")
    case True
    from Cons.prems have "f a \<notin> f ` set xs" by simp
    with True have "\<forall>y\<in>set xs. f y \<noteq> k" by blast
    then have "filter (\<lambda>y. f y = k) xs = []"
      by (simp add: filter_empty_conv)
    with True show ?thesis by simp
  next
    case False
    with Cons show ?thesis by auto
  qed
qed

lemma join_posts:
  assumes "distinct (map user_id us)" and "\<forall>p\<in>set ps. post_u_id p \<in> set (map user_id us)"
  shows "map row_post (concat (map (\<lambda>p. map (\<lambda>u. \<lparr>row_post = p, row_user = u, cc = n p\<rparr>)
                                 (filter (\<lambda>u. user_id u = post_u_id p) us)) ps)) = ps"
  using assms(2)
proof (induction ps)
  case Nil
  then show ?case by simp
next
  case (Cons p ps)
  from Cons.prems have "post_u_id p \<in> set (map user_id us)" by simp
  from filter_unique_key [OF assms(1) this]
  obtain u where "filter (\<lambda>u. user_id u = post_u_id p) us = [u]" by blast
  with Cons show ?case by simp
qed

lemma get_posts_where_connected:
  "get_posts_where st uid p = (post_u_id p = uid \<or> connected st uid (post_u_id p))"
  by (auto simp: get_posts_where_def connected_def list_ex_iff image_iff)

lemma sorted_wrt_strict:
  "sorted_wrt (\<lambda>a b. key b \<le> (key a :: nat)) xs \<Longrightarrow> distinct (map key xs)
     \<Longrightarrow> sorted_wrt (\<lambda>a b. key b < key a) xs"
proof (induction xs)
  case Nil
  then show ?case by simp
next
  case (Cons a xs)
  from Cons.prems have le: "\<forall>x\<in>set xs. key x \<le> key a" and ne: "key a \<notin> key ` set xs"
    by simp_all
  have "\<forall>x\<in>set xs. key x < key a"
  proof
    fix x assume x: "x \<in> set xs"
    with ne have "key x \<noteq> key a" by (metis imageI)
    with le x show "key x < key a" by (simp add: le_neq_implies_less)
  qed
  with Cons show ?case by simp
qed

text \<open>
  Claim C1, as the code has it. In a store whose user ids are unique and whose posts each
  have an author row (conditions that every handler keeps, see the last section),
  \<^verbatim>\<open>get_posts\<close> returns, for every user id, exactly the posts of the feed (written by
  the user or by a user connected by an edge in either direction, each once, no other
  post), ordered by creation time descending, though not strictly: no row is older than a
  row after it, and posts of one creation time, as two posts of the same second are,
  follow one another. Where the posts carry different timestamps each row is newer than
  the next. Every row carries the number of comments on its post and the author's row.
\<close>

theorem get_posts_feed:
  assumes pk: "distinct (map user_id (Users st))"
    and fk: "\<forall>p\<in>set (Posts st). post_u_id p \<in> set (map user_id (Users st))"
  shows "mset (map row_post (get_posts st uid)) = mset (feed_posts st uid)
       \<and> sorted_wrt (\<lambda>r s. post_creation_time (row_post s) \<le> post_creation_time (row_post r))
           (get_posts st uid)
       \<and> (distinct (map post_creation_time (Posts st)) \<longrightarrow>
            sorted_wrt (\<lambda>r s. post_creation_time (row_post s) < post_creation_time (row_post r))
              (get_posts st uid))
       \<and> (\<forall>r\<in>set (get_posts st uid).
            cc r = length (filter (\<lambda>c. p_id c = post_id (row_post r)) (Comments st))
            \<and> user_id (row_user r) = post_u_id (row_post r))"
proof -
  let ?key = "\<lambda>r. post_creation_time (row_post r)"
  let ?rows = "concat (map (\<lambda>p. map (\<lambda>u. \<lparr>row_post = p, row_user = u, cc = comment_count st p\<rparr>)
                              (filter (\<lambda>u. user_id u = post_u_id p) (Users st)))
                    (filter (get_posts_where st uid) (Posts st)))"
  have gp: "get_posts st uid = order_by_desc ?key ?rows"
    by (simp add: get_posts_def)
  have "\<forall>p\<in>set (filter (get_posts_where st uid) (Posts st)). post_u_id p \<in> set (map user_id (Users st))"
    using fk by simp
  from join_posts [OF pk this]
  have rows: "map row_post ?rows = filter (get_posts_where st uid) (Posts st)" .
  have feed: "filter (get_posts_where st uid) (Posts st) = feed_posts st uid"
    unfolding feed_posts_def by (rule filter_cong) (simp_all add: get_posts_where_connected)
  have "mset (map row_post (get_posts st uid)) = image_mset row_post (mset ?rows)"
    by (simp only: gp mset_map mset_order_by_desc)
  also have "\<dots> = mset (map row_post ?rows)" by simp
  also from rows feed have "map row_post ?rows = feed_posts st uid" by (rule trans)
  finally have A: "mset (map row_post (get_posts st uid)) = mset (feed_posts st uid)" .
  have B: "sorted_wrt (\<lambda>r s. ?key s \<le> ?key r) (get_posts st uid)"
    unfolding gp by (rule sorted_order_by_desc)
  have C: "sorted_wrt (\<lambda>r s. ?key s < ?key r) (get_posts st uid)"
    if d: "distinct (map post_creation_time (Posts st))"
  proof -
    have "distinct (map post_creation_time (feed_posts st uid))"
      using d by (simp add: feed_posts_def distinct_map_filter)
    moreover have "mset (map post_creation_time (map row_post (get_posts st uid)))
                     = mset (map post_creation_time (feed_posts st uid))"
      using A by (metis mset_map)
    ultimately have "distinct (map post_creation_time (map row_post (get_posts st uid)))"
      by (metis mset_eq_imp_distinct_iff)
    then have "distinct (map ?key (get_posts st uid))" by (simp add: comp_def)
    with B show ?thesis by (rule sorted_wrt_strict [of ?key])
  qed
  have D: "\<forall>r\<in>set (get_posts st uid).
            cc r = length (filter (\<lambda>c. p_id c = post_id (row_post r)) (Comments st))
            \<and> user_id (row_user r) = post_u_id (row_post r)"
    by (auto simp: gp set_order_by_desc comment_count_def)
  from A B C D show ?thesis by blast
qed

lemmas example_defs =
  example_state_def example_env_def alice_def bob_def carol_def new_user_def
  post1_def post2_def post3_def comment1_def

theorem get_posts_feed_witness:
  "distinct (map user_id (Users example_state))
   \<and> list_all (\<lambda>p. post_u_id p \<in> set (map user_id (Users example_state))) (Posts example_state)
   \<and> distinct (map post_creation_time (Posts example_state))
   \<and> mset (map row_post (get_posts example_state 1)) = mset (feed_posts example_state 1)
   \<and> sorted_wrt (\<lambda>r s. post_creation_time (row_post s) < post_creation_time (row_post r))
       (get_posts example_state 1)
   \<and> get_posts example_state 1 =
       [\<lparr>row_post = post2, row_user = bob, cc = 1\<rparr>, \<lparr>row_post = post1, row_user = alice, cc = 0\<rparr>]"
proof -
  have pk: "distinct (map user_id (Users example_state))"
    by (simp add: example_defs)
  have fk: "\<forall>p\<in>set (Posts example_state). post_u_id p \<in> set (map user_id (Users example_state))"
    by (simp add: example_defs)
  have d: "distinct (map post_creation_time (Posts example_state))"
    by (simp add: example_defs)
  have v: "get_posts example_state 1 =
       [\<lparr>row_post = post2, row_user = bob, cc = 1\<rparr>, \<lparr>row_post = post1, row_user = alice, cc = 0\<rparr>]"
    by (simp add: get_posts_def get_posts_where_def comment_count_def example_defs)
  from get_posts_feed [OF pk fk, of 1] d pk fk v show ?thesis
    by (simp only: list_all_iff simp_thms)
qed

theorem get_posts_ties_counterexample:
  "store_ok tied_state
   \<and> map (\<lambda>r. (post_id (row_post r), post_creation_time (row_post r))) (get_posts tied_state 1)
       = [(4, 40), (5, 40), (2, 20), (1, 10)]
   \<and> \<not> sorted_wrt (\<lambda>r s. post_creation_time (row_post s) < post_creation_time (row_post r))
         (get_posts tied_state 1)"
proof -
  have ua: "get_user example_state ''alice'' = Some alice"
    by (simp add: get_user_def html_escape_Cons html_escape_Nil escape_char_def example_defs)
  have n3: "next_id [1, 2, 3] = 4" and n4: "next_id [1, 2, 3, 4] = 5"
    by (simp_all add: next_id_def)
  have s1: "snd (snd (stream example_env example_state 40 ''alice'' (Some quick_post)))
      = example_state\<lparr>Posts := [post1, post2, post3,
          \<lparr>post_id = 4, post_u_id = 1, content = ''again'', image_ref = [],
           post_creation_time = 40\<rparr>]\<rparr>"
    using ua
    by (simp add: stream_def quick_post_def create_post_def html_escape_Cons html_escape_Nil
        escape_char_def n3 example_state_def post1_def post2_def post3_def alice_def new_user_def)
  have ua1: "get_user (example_state\<lparr>Posts := [post1, post2, post3,
          \<lparr>post_id = 4, post_u_id = 1, content = ''again'', image_ref = [],
           post_creation_time = 40\<rparr>]\<rparr>) ''alice'' = Some alice"
    using ua by (simp add: get_user_def)
  have ts: "tied_state
      = example_state\<lparr>Posts := [post1, post2, post3,
          \<lparr>post_id = 4, post_u_id = 1, content = ''again'', image_ref = [],
           post_creation_time = 40\<rparr>,
          \<lparr>post_id = 5, post_u_id = 1, content = ''again'', image_ref = [],
           post_creation_time = 40\<rparr>]\<rparr>"
    unfolding tied_state_def s1 using ua1
    by (simp add: stream_def quick_post_def create_post_def html_escape_Cons html_escape_Nil
        escape_char_def n4 post1_def post2_def post3_def alice_def new_user_def)
  have ok: "store_ok tied_state"
    unfolding ts by (simp add: store_ok_def example_defs)
  have feed: "map (\<lambda>r. (post_id (row_post r), post_creation_time (row_post r)))
                (get_posts tied_state 1) = [(4, 40), (5, 40), (2, 20), (1, 10)]"
    unfolding ts by (simp add: get_posts_def get_posts_where_def comment_count_def example_defs)
  have "\<not> sorted_wrt (\<lambda>a b. snd b < snd a)
            (map (\<lambda>r. (post_id (row_post r), post_creation_time (row_post r)))
               (get_posts tied_state 1))"
    unfolding feed by simp
  then have "\<not> sorted_wrt (\<lambda>r s. post_creation_time (row_post s) < post_creation_time (row_post r))
         (get_posts tied_state 1)"
    by (simp add: sorted_wrt_map)
  with ok feed show ?thesis by blast
qed

section \<open>Looking a user up\<close>

lemma get_user_Some:
  "get_user st name = Some u \<Longrightarrow> u \<in> set (Users st) \<and> username u = html_escape name"
  by (auto simp: get_user_def find_Some_iff)

lemma get_user_None:
  "get_user st name = None \<longleftrightarrow> (\<forall>u\<in>set (Users st). username u \<noteq> html_escape name)"
  by (auto simp: get_user_def find_None_iff)

lemma get_user_Users: "Users st' = Users st \<Longrightarrow> get_user st' name = get_user st name"
  by (simp add: get_user_def)

lemmas eval_defs =
  get_user_def html_escape_Cons html_escape_Nil escape_char_def get_friend_def get_friends_def
  has_edge_def create_friend_def

section \<open>Friend requests\<close>

lemma has_edge_get_friend: "has_edge st a b = (b \<in> set (get_friend st a))"
  by (auto simp: has_edge_def get_friend_def list_ex_iff image_iff)

lemma friends_accept:
  assumes "get_user st a = Some ua" and "get_user st t = Some fr"
    and "user_id fr \<noteq> user_id ua" and "\<not> has_edge st (user_id ua) (user_id fr)"
  shows "snd (friends st a (Some t)) =
           ([(''success'', ''Friend successfully added!'')],
            st\<lparr>Friends := Friends st @ [\<lparr>u_id = user_id ua, f_id = user_id fr\<rparr>]\<rparr>)"
  using assms by (simp add: friends_def create_friend_def has_edge_get_friend Let_def)

lemma friends_reject:
  assumes "get_user st a = Some ua"
    and "\<not> (\<exists>fr. get_user st t = Some fr \<and> user_id fr \<noteq> user_id ua
               \<and> \<not> has_edge st (user_id ua) (user_id fr))"
  shows "snd (snd (friends st a (Some t))) = st"
  using assms by (auto simp: friends_def has_edge_get_friend Let_def split: option.splits)

lemma friends_already:
  assumes "get_user st a = Some ua" and "get_user st t = Some fr"
    and "user_id fr \<noteq> user_id ua" and "has_edge st (user_id ua) (user_id fr)"
  shows "snd (friends st a (Some t)) =
           ([(''warning'', ''You are already friends with this user!'')], st)"
  using assms by (simp add: friends_def has_edge_get_friend Let_def)

lemma friends_self: "snd (snd (friends st a (Some a))) = st"
  by (simp add: friends_def Let_def split: option.splits)

text \<open>
  Claim C2. For a requester A with a user record, the friends handler adds an edge exactly
  when the target has a user record, its id differs from A's, and A has no outbound edge
  to it; the edge added leads from A to the target, and otherwise the store is left as it
  was. A request of A for A changes nothing in any store. After an accepted request of A
  for B, the same request is answered with the already-friends warning and changes
  nothing, while the request of B for A is accepted unless B has an outbound edge to A.
\<close>

theorem friends_edge_created_iff:
  "(get_user st a = Some ua \<longrightarrow>
      ((Friends (snd (snd (friends st a (Some t)))) \<noteq> Friends st)
         = (\<exists>fr. get_user st t = Some fr \<and> user_id fr \<noteq> user_id ua
                 \<and> \<not> has_edge st (user_id ua) (user_id fr)))
      \<and> (\<forall>fr. get_user st t = Some fr \<and> user_id fr \<noteq> user_id ua
                 \<and> \<not> has_edge st (user_id ua) (user_id fr) \<longrightarrow>
             snd (friends st a (Some t)) =
               ([(''success'', ''Friend successfully added!'')],
                st\<lparr>Friends := Friends st @ [\<lparr>u_id = user_id ua, f_id = user_id fr\<rparr>]\<rparr>))
      \<and> (\<not> (\<exists>fr. get_user st t = Some fr \<and> user_id fr \<noteq> user_id ua
                 \<and> \<not> has_edge st (user_id ua) (user_id fr)) \<longrightarrow>
             snd (snd (friends st a (Some t))) = st))
   \<and> snd (snd (friends st a (Some a))) = st
   \<and> (get_user st a = Some ua \<and> get_user st b = Some ub \<and> user_id ub \<noteq> user_id ua
        \<and> \<not> has_edge st (user_id ua) (user_id ub) \<longrightarrow>
       (let st1 = snd (snd (friends st a (Some b)))
        in has_edge st1 (user_id ua) (user_id ub)
           \<and> snd (friends st1 a (Some b)) =
               ([(''warning'', ''You are already friends with this user!'')], st1)
           \<and> (\<not> has_edge st (user_id ub) (user_id ua) \<longrightarrow>
                Friends (snd (snd (friends st1 b (Some a)))) =
                  Friends st1 @ [\<lparr>u_id = user_id ub, f_id = user_id ua\<rparr>])))"
proof -
  let ?cond = "\<exists>fr. get_user st t = Some fr \<and> user_id fr \<noteq> user_id ua
                 \<and> \<not> has_edge st (user_id ua) (user_id fr)"
  have P1: "(Friends (snd (snd (friends st a (Some t)))) \<noteq> Friends st) = ?cond"
    if ua: "get_user st a = Some ua"
  proof (cases ?cond)
    case True
    then obtain fr where fr: "get_user st t = Some fr" "user_id fr \<noteq> user_id ua"
      "\<not> has_edge st (user_id ua) (user_id fr)" by blast
    from friends_accept [OF ua fr] True show ?thesis by simp
  next
    case False
    from friends_reject [OF ua False] False show ?thesis by simp
  qed
  have P2: "snd (friends st a (Some t)) =
               ([(''success'', ''Friend successfully added!'')],
                st\<lparr>Friends := Friends st @ [\<lparr>u_id = user_id ua, f_id = user_id fr\<rparr>]\<rparr>)"
    if "get_user st a = Some ua" "get_user st t = Some fr" "user_id fr \<noteq> user_id ua"
      "\<not> has_edge st (user_id ua) (user_id fr)" for fr
    using that by (rule friends_accept)
  have P3: "snd (snd (friends st a (Some t))) = st" if "get_user st a = Some ua" "\<not> ?cond"
    using that by (rule friends_reject)
  have P5: "let st1 = snd (snd (friends st a (Some b)))
        in has_edge st1 (user_id ua) (user_id ub)
           \<and> snd (friends st1 a (Some b)) =
               ([(''warning'', ''You are already friends with this user!'')], st1)
           \<and> (\<not> has_edge st (user_id ub) (user_id ua) \<longrightarrow>
                Friends (snd (snd (friends st1 b (Some a)))) =
                  Friends st1 @ [\<lparr>u_id = user_id ub, f_id = user_id ua\<rparr>])"
    if ua: "get_user st a = Some ua" and ub: "get_user st b = Some ub"
      and ne: "user_id ub \<noteq> user_id ua" and no: "\<not> has_edge st (user_id ua) (user_id ub)"
  proof -
    define st1 where "st1 = st\<lparr>Friends := Friends st @ [\<lparr>u_id = user_id ua, f_id = user_id ub\<rparr>]\<rparr>"
    from friends_accept [OF ua ub ne no]
    have s1: "snd (snd (friends st a (Some b))) = st1" by (simp add: st1_def)
    have ua1: "get_user st1 a = Some ua" and ub1: "get_user st1 b = Some ub"
      using ua ub by (simp_all add: st1_def get_user_def)
    have e1: "has_edge st1 (user_id ua) (user_id ub)"
      by (simp add: st1_def has_edge_def)
    have again: "snd (friends st1 a (Some b)) =
               ([(''warning'', ''You are already friends with this user!'')], st1)"
      using ua1 ub1 ne e1 by (rule friends_already)
    have converse: "Friends (snd (snd (friends st1 b (Some a)))) =
                  Friends st1 @ [\<lparr>u_id = user_id ub, f_id = user_id ua\<rparr>]"
      if nb: "\<not> has_edge st (user_id ub) (user_id ua)"
    proof -
      from nb ne have "\<not> has_edge st1 (user_id ub) (user_id ua)"
        by (auto simp: st1_def has_edge_def)
      from friends_accept [OF ub1 ua1 ne [symmetric] this] show ?thesis by simp
    qed
    from e1 again converse show ?thesis by (simp add: s1 Let_def)
  qed
  from P1 P2 P3 P5 friends_self [of st a] show ?thesis by blast
qed

theorem friends_edge_created_iff_witness:
  "get_user example_state ''alice'' = Some alice
   \<and> get_user example_state ''bob'' = Some bob
   \<and> has_edge example_state 2 1
   \<and> \<not> has_edge example_state 1 2
   \<and> snd (friends example_state ''alice'' (Some ''bob'')) =
       ([(''success'', ''Friend successfully added!'')],
        example_state\<lparr>Friends := [\<lparr>u_id = 2, f_id = 1\<rparr>, \<lparr>u_id = 1, f_id = 2\<rparr>]\<rparr>)
   \<and> snd (snd (friends example_state ''bob'' (Some ''alice''))) = example_state
   \<and> snd (snd (friends example_state ''alice'' (Some ''alice''))) = example_state"
proof -
  have ua: "get_user example_state ''alice'' = Some alice"
    by (simp add: eval_defs example_defs)
  have ub: "get_user example_state ''bob'' = Some bob"
    by (simp add: eval_defs example_defs)
  have ids: "user_id alice = 1" "user_id bob = 2"
    by (simp_all add: example_defs)
  have e1: "has_edge example_state 2 1" and e2: "\<not> has_edge example_state 1 2"
    by (simp_all add: has_edge_def example_state_def)
  have fr: "Friends example_state = [\<lparr>u_id = 2, f_id = 1\<rparr>]"
    by (simp add: example_state_def)
  note T1 = friends_edge_created_iff [of example_state "''alice''" alice "''bob''" "''alice''" alice]
  note T2 = friends_edge_created_iff [of example_state "''bob''" bob "''alice''" "''bob''" bob]
  from T1 ua ub ids e2 have A: "snd (friends example_state ''alice'' (Some ''bob'')) =
       ([(''success'', ''Friend successfully added!'')],
        example_state\<lparr>Friends := [\<lparr>u_id = 2, f_id = 1\<rparr>, \<lparr>u_id = 1, f_id = 2\<rparr>]\<rparr>)"
    by (simp add: fr)
  from T2 ua ub ids e1 have B: "snd (snd (friends example_state ''bob'' (Some ''alice''))) = example_state"
    by simp
  from T1 have C: "snd (snd (friends example_state ''alice'' (Some ''alice''))) = example_state"
    by blast
  from ua ub e1 e2 A B C show ?thesis by blast
qed

section \<open>Registration and login\<close>

text \<open>
  Claim C3. A valid register form whose username is already in the store never reaches
  the failure message of \<^verbatim>\<open>index\<close>. Where the schema declares the username unique,
  the insert raises IntegrityError, which neither \<^verbatim>\<open>create_user\<close> nor \<^verbatim>\<open>index\<close>
  catches, and the store is as before; where it does not, a second row with the username
  is inserted and the success message is flashed.
\<close>

theorem register_duplicate_username:
  assumes "get_user st (reg_username rf) = Some u"
    and "reg_errors rf = []" and "reg_submit rf" and "\<not> login_submit lf"
  shows "index e st POST lf rf =
           (if username_unique e then (Raised IntegrityError, [], st)
            else (Responded (redirect index_url),
                  [(''success'', ''User successfully created!'')],
                  st\<lparr>Users := Users st @
                    [\<lparr>user_id = next_id (map user_id (Users st)),
                      username = html_escape (reg_username rf),
                      first_name = html_escape (reg_first_name rf),
                      last_name = html_escape (reg_last_name rf),
                      password = html_escape (generate_password_hash e (reg_password rf)),
                      education = profile_default e, employment = profile_default e,
                      music = profile_default e, movie = profile_default e,
                      nationality = profile_default e, birthday = profile_default e\<rparr>]\<rparr>))
         \<and> fst (snd (index e st POST lf rf))
             \<noteq> [(''warning'', ''Somthing went wrong, user was not created!'')]"
proof -
  from get_user_Some [OF assms(1)]
  have "html_escape (reg_username rf) \<in> set (map username (Users st))"
    by (metis imageI set_map)
  with assms(2-4) show ?thesis
    by (simp add: index_def create_user_def Let_def)
qed

theorem register_duplicate_username_witness:
  "get_user example_state ''alice'' = Some alice
   \<and> index example_env example_state POST
       \<lparr>login_username = [], login_password = [], login_submit = False, login_valid = False\<rparr>
       \<lparr>reg_username = ''alice'', reg_first_name = ''Alice'', reg_last_name = ''Doe'',
        reg_password = ''secret'', reg_submit = True, reg_errors = []\<rparr>
     = (Raised IntegrityError, [], example_state)"
proof -
  have ua: "get_user example_state ''alice'' = Some alice"
    by (simp add: eval_defs example_defs)
  from register_duplicate_username [of example_state
      "\<lparr>reg_username = ''alice'', reg_first_name = ''Alice'', reg_last_name = ''Doe'',
        reg_password = ''secret'', reg_submit = True, reg_errors = []\<rparr>" alice
      "\<lparr>login_username = [], login_password = [], login_submit = False, login_valid = False\<rparr>"
      example_env] ua
  show ?thesis by (simp add: example_env_def)
qed

text \<open>
  Claim C6. Two valid login submissions, one naming a user that the store does not hold
  and one naming a stored user with a password that the stored hash does not verify, get
  the same answer from \<^verbatim>\<open>index\<close>: the index view with the one warning
  ``Sorry, username or password is not valid!'', and an unchanged store.
\<close>

theorem login_rejections_indistinguishable:
  assumes "login_submit l1" and "login_valid l1" and "login_submit l2" and "login_valid l2"
    and "get_user st (login_username l1) = None"
    and "get_user st (login_username l2) = Some u"
    and "\<not> check_password_hash e (password u) (html_escape (login_password l2))"
  shows "index e st POST l1 r1 = index e st POST l2 r2
       \<and> index e st POST l1 r1 =
           (Responded (render_template index_view),
            [(''warning'', ''Sorry, username or password is not valid!'')], st)"
  using assms by (simp add: index_def invalid_login_def)

theorem login_rejections_indistinguishable_witness:
  "get_user example_state ''mallory'' = None
   \<and> get_user example_state ''alice'' = Some alice
   \<and> \<not> check_password_hash example_env (password alice) (html_escape ''guess'')
   \<and> index example_env example_state POST
       \<lparr>login_username = ''mallory'', login_password = ''guess'', login_submit = True,
        login_valid = True\<rparr>
       \<lparr>reg_username = [], reg_first_name = [], reg_last_name = [], reg_password = [],
        reg_submit = False, reg_errors = []\<rparr>
     = index example_env example_state POST
       \<lparr>login_username = ''alice'', login_password = ''guess'', login_submit = True,
        login_valid = True\<rparr>
       \<lparr>reg_username = [], reg_first_name = [], reg_last_name = [], reg_password = [],
        reg_submit = False, reg_errors = []\<rparr>"
proof -
  have n: "get_user example_state ''mallory'' = None"
    by (simp add: eval_defs example_defs)
  have ua: "get_user example_state ''alice'' = Some alice"
    by (simp add: eval_defs example_defs)
  have w: "\<not> check_password_hash example_env (password alice) (html_escape ''guess'')"
    by (simp add: eval_defs example_defs)
  from login_rejections_indistinguishable [of
      "\<lparr>login_username = ''mallory'', login_password = ''guess'', login_submit = True,
        login_valid = True\<rparr>"
      "\<lparr>login_username = ''alice'', login_password = ''guess'', login_submit = True,
        login_valid = True\<rparr>"
      example_state alice example_env
      "\<lparr>reg_username = [], reg_first_name = [], reg_last_name = [], reg_password = [],
        reg_submit = False, reg_errors = []\<rparr>"
      "\<lparr>reg_username = [], reg_first_name = [], reg_last_name = [], reg_password = [],
        reg_submit = False, reg_errors = []\<rparr>"] n ua w
  show ?thesis by simp
qed

section \<open>Posting to the stream\<close>

text \<open>
  Claim C5. For a valid post form submitted by a user with a record: when the image field
  holds nothing, \<^verbatim>\<open>stream\<close> raises AttributeError on
  \<^verbatim>\<open>post_form.image.data.filename\<close>, creating no post and returning no redirect. When
  it holds a file object that is not saved (empty filename) or whose save succeeds, the
  post is created with the escaped content and the file's name and the handler redirects
  to the same stream; when the save raises, the request ends with that error and no post.
\<close>

theorem stream_valid_submission:
  assumes "get_user st uname = Some u"
  shows "(image_data pf = None \<longrightarrow> stream e st now uname (Some pf) = (Raised AttributeError, [], st))
       \<and> (\<forall>fs. image_data pf = Some fs \<and> (filename fs = [] \<or> (\<exists>st1. save e st fs = Inr st1)) \<longrightarrow>
            fst (stream e st now uname (Some pf)) = Responded (redirect (stream_url uname))
            \<and> Posts (snd (snd (stream e st now uname (Some pf)))) =
                Posts st @ [\<lparr>post_id = next_id (map post_id (Posts st)), post_u_id = user_id u,
                             content = html_escape (content_data pf), image_ref = filename fs,
                             post_creation_time = now\<rparr>])
       \<and> (\<forall>fs err. image_data pf = Some fs \<and> filename fs \<noteq> [] \<and> save e st fs = Inl err \<longrightarrow>
            stream e st now uname (Some pf) = (Raised err, [], st))"
  using assms
  by (auto simp: stream_def create_post_def save_def Let_def split: sum.splits)

theorem stream_valid_submission_witness:
  "get_user example_state ''alice'' = Some alice
   \<and> stream example_env example_state 40 ''alice''
       (Some \<lparr>content_data = ''no picture today'', image_data = None\<rparr>)
     = (Raised AttributeError, [], example_state)
   \<and> fst (stream example_env example_state 40 ''alice''
       (Some \<lparr>content_data = ''no picture today'',
              image_data = Some \<lparr>filename = [], file_data = []\<rparr>\<rparr>))
     = Responded (redirect (stream_url ''alice''))
   \<and> stream example_env example_state 40 ''alice''
       (Some \<lparr>content_data = ''picture'',
              image_data = Some \<lparr>filename = ''nodir/b.png'', file_data = ''png''\<rparr>\<rparr>)
     = (Raised FileNotFoundError, [], example_state)"
proof -
  have ua: "get_user example_state ''alice'' = Some alice"
    by (simp add: eval_defs example_defs)
  have sv: "save example_env example_state \<lparr>filename = ''nodir/b.png'', file_data = ''png''\<rparr>
              = Inl FileNotFoundError"
    by (simp add: save_def example_env_def)
  from stream_valid_submission [OF ua, of
      "\<lparr>content_data = ''no picture today'', image_data = None\<rparr>" example_env 40]
  have A: "stream example_env example_state 40 ''alice''
       (Some \<lparr>content_data = ''no picture today'', image_data = None\<rparr>)
     = (Raised AttributeError, [], example_state)" by simp
  from stream_valid_submission [OF ua, of
      "\<lparr>content_data = ''no picture today'',
        image_data = Some \<lparr>filename = [], file_data = []\<rparr>\<rparr>" example_env 40]
  have B: "fst (stream example_env example_state 40 ''alice''
       (Some \<lparr>content_data = ''no picture today'',
              image_data = Some \<lparr>filename = [], file_data = []\<rparr>\<rparr>))
     = Responded (redirect (stream_url ''alice''))" by simp
  from stream_valid_submission [OF ua, of
      "\<lparr>content_data = ''picture'',
        image_data = Some \<lparr>filename = ''nodir/b.png'', file_data = ''png''\<rparr>\<rparr>" example_env 40] sv
  have C: "stream example_env example_state 40 ''alice''
       (Some \<lparr>content_data = ''picture'',
              image_data = Some \<lparr>filename = ''nodir/b.png'', file_data = ''png''\<rparr>\<rparr>)
     = (Raised FileNotFoundError, [], example_state)" by simp
  from ua A B C show ?thesis by blast
qed

section \<open>Profiles\<close>

lemma update_profile_absent:
  assumes "get_user st name = None"
  shows "update_profile st name edu emp mus mov natl bday = (0, st)"
proof -
  from assms have no: "\<forall>u\<in>set (Users st). username u \<noteq> html_escape name"
    by (simp add: get_user_None)
  then have "filter (\<lambda>u. username u = html_escape name) (Users st) = []"
    by (simp add: filter_empty_conv)
  moreover from no have "map (\<lambda>u. if username u = html_escape name
                             then u\<lparr>education := Some (html_escape edu),
                                    employment := Some (html_escape emp),
                                    music := Some (html_escape mus),
                                    movie := Some (html_escape mov),
                                    nationality := Some (html_escape natl),
                                    birthday := Some bday\<rparr>
                             else u) (Users st) = Users st"
    by (simp add: map_idI)
  ultimately show ?thesis by (simp add: update_profile_def)
qed

text \<open>
  Claim C4. In every row that \<^verbatim>\<open>update_profile\<close> writes (the rows whose username is
  the escaped argument), education, employment, music, movie and nationality are the
  HTML-escaped forms of the arguments. The birthday is bound as it is passed: where the
  claim asks for the escaped form, the stored birthday is the raw argument, markup
  included. The result is the number of rows written.
\<close>

theorem update_profile_escapes_text_fields:
  "(\<forall>u\<in>set (Users (snd (update_profile st name edu emp mus mov natl bday))).
      username u = html_escape name \<longrightarrow>
        education u = Some (html_escape edu) \<and> employment u = Some (html_escape emp)
        \<and> music u = Some (html_escape mus) \<and> movie u = Some (html_escape mov)
        \<and> nationality u = Some (html_escape natl) \<and> birthday u = Some bday)
   \<and> fst (update_profile st name edu emp mus mov natl bday) =
       length (filter (\<lambda>u. username u = html_escape name)
                 (Users (snd (update_profile st name edu emp mus mov natl bday))))"
proof -
  let ?upd = "\<lambda>u. if username u = html_escape name
                  then u\<lparr>education := Some (html_escape edu),
                         employment := Some (html_escape emp),
                         music := Some (html_escape mus),
                         movie := Some (html_escape mov),
                         nationality := Some (html_escape natl),
                         birthday := Some bday\<rparr>
                  else u"
  have key: "username (?upd u) = username u" for u by simp
  have "filter (\<lambda>u. username u = html_escape name) (map ?upd (Users st))
          = map ?upd (filter (\<lambda>u. username u = html_escape name) (Users st))"
    by (simp only: filter_map comp_def key)
  then have "length (filter (\<lambda>u. username u = html_escape name) (map ?upd (Users st)))
          = length (filter (\<lambda>u. username u = html_escape name) (Users st))"
    by (simp only: length_map)
  then show ?thesis
    by (auto simp: update_profile_def)
qed

theorem update_profile_escapes_text_fields_witness:
  "map (\<lambda>u. (education u, nationality u, birthday u))
     (filter (\<lambda>u. username u = html_escape ''alice'')
        (Users (snd (update_profile example_state ''alice'' ''R&D'' ''none'' ''jazz'' ''noir''
                       ''<i>nowhere</i>'' ''<b>1990</b>''))))
   = [(Some ''R&amp;D'', Some ''&lt;i&gt;nowhere&lt;/i&gt;'', Some ''<b>1990</b>'')]
   \<and> html_escape ''<b>1990</b>'' = ''&lt;b&gt;1990&lt;/b&gt;''"
proof -
  let ?st = "snd (update_profile example_state ''alice'' ''R&D'' ''none'' ''jazz'' ''noir''
                       ''<i>nowhere</i>'' ''<b>1990</b>'')"
  have f: "filter (\<lambda>u. username u = html_escape ''alice'') (Users ?st) = [hd (Users ?st)]"
    by (simp add: update_profile_def eval_defs example_defs)
  have m: "hd (Users ?st) \<in> set (Users ?st)" "username (hd (Users ?st)) = html_escape ''alice''"
    by (simp_all add: update_profile_def eval_defs example_defs)
  have b: "html_escape ''<b>1990</b>'' = ''&lt;b&gt;1990&lt;/b&gt;''"
    by (simp add: html_escape_Cons html_escape_Nil escape_char_def)
  from update_profile_escapes_text_fields [of example_state "''alice''" "''R&D''" "''none''"
      "''jazz''" "''noir''" "''<i>nowhere</i>''" "''<b>1990</b>''"] m
  have "education (hd (Users ?st)) = Some (html_escape ''R&D'')
      \<and> nationality (hd (Users ?st)) = Some (html_escape ''<i>nowhere</i>'')
      \<and> birthday (hd (Users ?st)) = Some ''<b>1990</b>''"
    by blast
  then have "map (\<lambda>u. (education u, nationality u, birthday u))
     (filter (\<lambda>u. username u = html_escape ''alice'') (Users ?st))
   = [(Some ''R&amp;D'', Some ''&lt;i&gt;nowhere&lt;/i&gt;'', Some ''<b>1990</b>'')]"
    unfolding f by (simp add: html_escape_Cons html_escape_Nil escape_char_def)
  with b show ?thesis by blast
qed

text \<open>
  Claim C8, as the code has it. \<^verbatim>\<open>update_profile\<close> for U leaves every row with another
  username as it was, at its place, and leaves the other tables and the files alone; and
  when U has a record, fetching U afterwards gives that record with education, employment,
  music, movie and nationality set to the HTML-escaped forms of the submitted values and
  the birthday set to the submitted value.
\<close>

theorem update_profile_frame:
  "length (Users (snd (update_profile st name edu emp mus mov natl bday))) = length (Users st)
   \<and> (\<forall>i<length (Users st). username (Users st ! i) \<noteq> html_escape name \<longrightarrow>
         Users (snd (update_profile st name edu emp mus mov natl bday)) ! i = Users st ! i)
   \<and> Posts (snd (update_profile st name edu emp mus mov natl bday)) = Posts st
   \<and> Comments (snd (update_profile st name edu emp mus mov natl bday)) = Comments st
   \<and> Friends (snd (update_profile st name edu emp mus mov natl bday)) = Friends st
   \<and> files (snd (update_profile st name edu emp mus mov natl bday)) = files st
   \<and> (\<forall>u. get_user st name = Some u \<longrightarrow>
         get_user (snd (update_profile st name edu emp mus mov natl bday)) name =
           Some (u\<lparr>education := Some (html_escape edu),
                   employment := Some (html_escape emp),
                   music := Some (html_escape mus),
                   movie := Some (html_escape mov),
                   nationality := Some (html_escape natl),
                   birthday := Some bday\<rparr>))"
proof -
  let ?upd = "\<lambda>u. if username u = html_escape name
                  then u\<lparr>education := Some (html_escape edu),
                         employment := Some (html_escape emp),
                         music := Some (html_escape mus),
                         movie := Some (html_escape mov),
                         nationality := Some (html_escape natl),
                         birthday := Some bday\<rparr>
                  else u"
  have fetch: "find (\<lambda>u. username u = html_escape name) (map ?upd us) = Some (?upd u)"
    if "find (\<lambda>u. username u = html_escape name) us = Some u" for us u
    using that by (induction us) (auto split: if_splits)
  have "get_user (snd (update_profile st name edu emp mus mov natl bday)) name = Some (?upd u)"
    if "get_user st name = Some u" for u
    using fetch [of "Users st" u] that by (simp add: get_user_def update_profile_def)
  moreover have "?upd u = u\<lparr>education := Some (html_escape edu),
                   employment := Some (html_escape emp),
                   music := Some (html_escape mus),
                   movie := Some (html_escape mov),
                   nationality := Some (html_escape natl),
                   birthday := Some bday\<rparr>"
    if "get_user st name = Some u" for u
    using get_user_Some [OF that] by simp
  ultimately show ?thesis
    by (simp add: update_profile_def)
qed

theorem update_profile_frame_witness:
  "get_user example_state ''bob'' = Some bob
   \<and> Users (snd (update_profile example_state ''bob'' ''R&D'' ''none'' ''jazz'' ''noir''
                    ''nowhere'' ''1990-01-01''))
     = [alice,
        bob\<lparr>education := Some ''R&amp;D'', employment := Some ''none'', music := Some ''jazz'',
            movie := Some ''noir'', nationality := Some ''nowhere'',
            birthday := Some ''1990-01-01''\<rparr>,
        carol]
   \<and> get_user (snd (update_profile example_state ''bob'' ''R&D'' ''none'' ''jazz'' ''noir''
                       ''nowhere'' ''1990-01-01'')) ''bob''
     = Some (bob\<lparr>education := Some ''R&amp;D'', employment := Some ''none'',
                 music := Some ''jazz'', movie := Some ''noir'', nationality := Some ''nowhere'',
                 birthday := Some ''1990-01-01''\<rparr>)"
proof -
  have ub: "get_user example_state ''bob'' = Some bob"
    by (simp add: eval_defs example_defs)
  have us: "Users (snd (update_profile example_state ''bob'' ''R&D'' ''none'' ''jazz'' ''noir''
                    ''nowhere'' ''1990-01-01''))
     = [alice,
        bob\<lparr>education := Some ''R&amp;D'', employment := Some ''none'', music := Some ''jazz'',
            movie := Some ''noir'', nationality := Some ''nowhere'',
            birthday := Some ''1990-01-01''\<rparr>,
        carol]"
    by (simp add: update_profile_def eval_defs example_defs)
  from update_profile_frame [of example_state "''bob''" "''R&D''" "''none''" "''jazz''"
      "''noir''" "''nowhere''" "''1990-01-01''"] ub
  have "get_user (snd (update_profile example_state ''bob'' ''R&D'' ''none'' ''jazz'' ''noir''
                       ''nowhere'' ''1990-01-01'')) ''bob''
     = Some (bob\<lparr>education := Some (html_escape ''R&D''),
                 employment := Some (html_escape ''none''),
                 music := Some (html_escape ''jazz''), movie := Some (html_escape ''noir''),
                 nationality := Some (html_escape ''nowhere''),
                 birthday := Some ''1990-01-01''\<rparr>)"
    by blast
  then have "get_user (snd (update_profile example_state ''bob'' ''R&D'' ''none'' ''jazz'' ''noir''
                       ''nowhere'' ''1990-01-01'')) ''bob''
     = Some (bob\<lparr>education := Some ''R&amp;D'', employment := Some ''none'',
                 music := Some ''jazz'', movie := Some ''noir'', nationality := Some ''nowhere'',
                 birthday := Some ''1990-01-01''\<rparr>)"
    by (simp add: html_escape_Cons html_escape_Nil escape_char_def)
  with ub us show ?thesis by blast
qed

theorem update_profile_as_submitted_counterexample:
  "get_user example_state ''bob'' = Some bob
   \<and> map_option education
       (get_user (snd (update_profile example_state ''bob'' ''R&D'' ''none'' ''jazz'' ''noir''
                         ''nowhere'' ''1990-01-01'')) ''bob'')
     = Some (Some ''R&amp;D'')
   \<and> Some (Some ''R&amp;D'') \<noteq> Some (Some ''R&D'')"
  by (simp add: update_profile_def eval_defs example_defs)

section \<open>A username without a user record\<close>




text \<open>
  Claim C10. \<^verbatim>\<open>profile\<close> answers every request, user record or not. For a username
  without a record, a request that is not a valid submission renders the profile view with
  an absent user, and a valid submission calls \<^verbatim>\<open>update_profile\<close>, which matches no
  row and changes nothing, and redirects to the profile URL.
\<close>

theorem profile_absent_user:
  assumes "get_user st uname = None"
  shows "profile st uname None = (Responded (render_template (profile_view uname None)), [], st)
       \<and> profile st uname (Some pf) = (Responded (redirect (profile_url uname)), [], st)
       \<and> update_profile st uname (education_data pf) (employment_data pf) (music_data pf)
           (movie_data pf) (nationality_data pf) (birthday_data pf) = (0, st)
       \<and> (\<exists>r. fst (profile st' uname' form) = Responded r)"
proof -
  have "\<exists>r. fst (profile st' uname' form) = Responded r"
    by (cases form) (simp_all add: profile_def)
  with assms update_profile_absent [OF assms] show ?thesis
    by (simp add: profile_def)
qed

theorem profile_absent_user_witness:
  "get_user example_state ''mallory'' = None
   \<and> profile example_state ''mallory'' None
       = (Responded (render_template (profile_view ''mallory'' None)), [], example_state)
   \<and> profile example_state ''mallory''
       (Some \<lparr>education_data = ''R&D'', employment_data = ''none'', music_data = ''jazz'',
              movie_data = ''noir'', nationality_data = ''nowhere'',
              birthday_data = ''1990-01-01''\<rparr>)
       = (Responded (redirect (profile_url ''mallory'')), [], example_state)"
proof -
  have n: "get_user example_state ''mallory'' = None"
    by (simp add: eval_defs example_defs)
  from profile_absent_user [OF n, of
      "\<lparr>education_data = ''R&D'', employment_data = ''none'', music_data = ''jazz'',
        movie_data = ''noir'', nationality_data = ''nowhere'',
        birthday_data = ''1990-01-01''\<rparr>"] n
  show ?thesis by blast
qed

section \<open>The store the handlers keep\<close>

text \<open>
  The two conditions on the store under which the feed is characterised (unique user ids,
  every post written by a stored user) hold in the empty store and are kept by every
  handler, whatever the request and whether it responds or raises.
\<close>

lemma fold_max_ge: "(a::int) \<le> fold max ids a \<and> (\<forall>x\<in>set ids. x \<le> fold max ids a)"
proof (induction ids arbitrary: a)
  case Nil
  then show ?case by simp
next
  case (Cons i ids)
  from Cons.IH [of "max i a"] show ?case by auto
qed

lemma next_id_fresh: "next_id ids \<notin> set ids"
proof
  assume "next_id ids \<in> set ids"
  with fold_max_ge [of 0 ids] have "next_id ids \<le> fold max ids 0" by blast
  then show False by (simp add: next_id_def)
qed

lemma store_ok_empty:
  "store_ok \<lparr>Users = [], Posts = [], Comments = [], Friends = [], files = []\<rparr>"
  by (simp add: store_ok_def)

lemma store_ok_index: "store_ok st \<Longrightarrow> store_ok (snd (snd (index e st m lf rf)))"
  using next_id_fresh [of "map user_id (Users st)"]
  by (auto simp: index_def create_user_def store_ok_def list_all_iff Let_def
      split: option.splits)

lemma store_ok_stream: "store_ok st \<Longrightarrow> store_ok (snd (snd (stream e st now uname form)))"
  by (auto simp: stream_def create_post_def save_def store_ok_def list_all_iff Let_def
      dest: get_user_Some split: option.splits sum.splits)

lemma store_ok_comments: "store_ok st \<Longrightarrow> store_ok (snd (snd (comments st now uname pid form)))"
  by (auto simp: comments_def create_comment_def get_post_def get_comments_def store_ok_def
      Let_def split: option.splits sum.splits)

lemma store_ok_friends: "store_ok st \<Longrightarrow> store_ok (snd (snd (friends st uname form)))"
  by (auto simp: friends_def create_friend_def store_ok_def Let_def split: option.splits)

lemma store_ok_profile: "store_ok st \<Longrightarrow> store_ok (snd (snd (profile st uname form)))"
proof -
  have ids: "(\<lambda>u. user_id (if username u = k
                             then u\<lparr>education := a, employment := b, music := c, movie := d,
                                    nationality := n, birthday := y\<rparr>
                             else u)) = user_id" for k a b c d n y
    by (rule ext) simp
  assume "store_ok st"
  then show ?thesis
    by (cases form) (simp_all add: profile_def update_profile_def store_ok_def comp_def ids)
qed

end
